theory Spec2Isabelle
  imports Complex_Main "HOL-Library.AList"
begin

section \<open>Relay hub: data model\<close>

text \<open>
  The relay hub (the relay server source, second part of \<^verbatim>\<open>database.ts\<close>) keeps four
  process-wide tables: \<^verbatim>\<open>connectedNodes\<close>, \<^verbatim>\<open>nodesByWallet\<close>, \<^verbatim>\<open>walletStats\<close> and the
  counter \<^verbatim>\<open>roundRobinIndex\<close>; the SQLite table \<^verbatim>\<open>wallet_stats\<close> is the durable copy of
  \<^verbatim>\<open>walletStats\<close>.  JavaScript numbers are modelled as \<open>int\<close> (every counter and every
  millisecond clock value is an integer far below \<open>2^53\<close>, where doubles are exact);
  \<^verbatim>\<open>Date.now()\<close> is an explicit argument \<open>now\<close> of each handler.  Each handler runs to
  completion on the single JavaScript thread, so it is a function from hub state to hub
  state.
\<close>

type_synonym wallet = string
type_synonym node_id = string

record NodeStats =
  requestsHandled :: int
  avgLatencyMs :: int
  cacheHits :: int
  cacheMisses :: int
  errors :: int

text \<open>\<^verbatim>\<open>interface PersistedStats\<close>: the five counters plus uptime bookkeeping;
  \<open>lastIP\<close> is optional in the source.\<close>

record PersistedStats = NodeStats +
  totalUptime :: int
  lastDisconnect :: int
  firstConnect :: int
  lastIP :: "string option"

text \<open>The JSON frames the hub sends to a node during registration.\<close>

datatype ws_frame =
    auth_failed string
  | not_registered wallet
  | registered node_id bool "(int \<times> int) option"

text \<open>
  \<^verbatim>\<open>interface ConnectedNode\<close>.  The socket \<^verbatim>\<open>ws\<close> is represented by the frames sent on
  it (\<open>ws_sent\<close>, oldest first) and by whether \<^verbatim>\<open>ws.close()\<close> has been called
  (\<open>ws_closing\<close>).  \<open>node_totalUptime\<close> is the ad-hoc property
  \<^verbatim>\<open>(node as any).totalUptime\<close>.  \<^verbatim>\<open>location\<close> and \<^verbatim>\<open>pendingRequests\<close> play no role in
  the handlers below and are left out.
\<close>

record ConnectedNode =
  nid :: node_id
  operator :: string
  name :: string
  isRegistered :: bool
  bondAmount :: int
  pendingEarnings :: int
  totalEarned :: int
  connectedAt :: int
  lastPing :: int
  ip :: string
  stats :: NodeStats
  node_totalUptime :: "int option"
  ws_sent :: "ws_frame list"
  ws_closing :: bool

text \<open>The fields of the on-chain \<^verbatim>\<open>CacheNodeAccount\<close> that the hub reads.\<close>

record CacheNodeAccount =
  isActive :: bool
  acc_bondAmount :: int
  acc_pendingEarnings :: int
  acc_totalEarned :: int

text \<open>
  A parsed \<^verbatim>\<open>register\<close> frame.  Its fields are arbitrary JSON values; each is
  represented by what the handler's operations make of it.

  \<^item> \<open>msg_wallet\<close>: \<open>No_wallet\<close> when the field is absent or \<^verbatim>\<open>null\<close>; \<open>Wallet_text s\<close> when
    it is the string \<open>s\<close>; \<open>Wallet_unsliceable\<close> when it is a number, a boolean or an
    object, for which the call \<^verbatim>\<open>msg.wallet?.slice(0,8)\<close> of the handler's first log line
    raises a \<^verbatim>\<open>TypeError\<close>.  (A JSON array, which has a \<^verbatim>\<open>slice\<close> method and would be kept
    as a map key by object identity, has no representation here.)
  \<^item> \<open>msg_timestamp\<close>: the result of the number conversion that
    \<^verbatim>\<open>now - timestamp\<close> applies to the field.  An absent field, a non-numeric string and
    a plain object convert to \<open>NaN\<close>; \<^verbatim>\<open>null\<close>, \<^verbatim>\<open>false\<close>, the empty string and the empty
    array to \<open>Finite 0\<close>, \<^verbatim>\<open>true\<close> to \<open>Finite 1\<close>; a number or a numeric string to its
    value (\<open>Infinite\<close> beyond the double range); an object with an own, hence not
    callable, \<^verbatim>\<open>toString\<close> member, or an array holding one, cannot be converted
    (\<open>Unconvertible\<close>, a \<^verbatim>\<open>TypeError\<close>).
  \<^item> \<open>msg_signature\<close>: \<open>No_signature\<close> when the field is absent or a falsy non-string
    (\<^verbatim>\<open>null\<close>, \<^verbatim>\<open>false\<close>, \<^verbatim>\<open>0\<close>); \<open>Signature_text s\<close> when it is the string \<open>s\<close>;
    \<open>Signature_other\<close> when it is a truthy non-string that fails
    \<^verbatim>\<open>signature.length === 64 && /^[0-9a-f]+$/i.test(signature)\<close>, as every number and
    \<^verbatim>\<open>true\<close> does, and every array and object whose \<^verbatim>\<open>length\<close> is not 64 or which the
    test can convert to a string; \<open>Signature_unconvertible\<close> when the regular expression
    test raises a \<^verbatim>\<open>TypeError\<close>: an object with \<^verbatim>\<open>length\<close> 64 and an own \<^verbatim>\<open>toString\<close>
    member, or an array of 64 elements of which one is an object with such a member.
  \<^item> \<open>msg_name\<close>: the name when it is a string, \<open>None\<close> when the field is absent or
    falsy.  Names that are not strings have no representation here.
\<close>

datatype wallet_field = No_wallet | Wallet_text string | Wallet_unsliceable

datatype js_number = Finite real | Infinite | NaN | Unconvertible

datatype signature_field =
    No_signature
  | Signature_text string
  | Signature_other
  | Signature_unconvertible

record RegisterMsg =
  msg_wallet :: wallet_field
  msg_name :: "string option"
  msg_timestamp :: js_number
  msg_signature :: signature_field

text \<open>
  The hub process.  \<open>nodes\<close> holds the \<^verbatim>\<open>node\<close> object that each accepted socket's
  closure owns (keyed by its \<^verbatim>\<open>nodeId\<close>); \<open>connectedNodes\<close> lists the keys of the
  \<^verbatim>\<open>connectedNodes\<close> map in insertion order, its values being those same objects.
  \<open>wallet_stats_table\<close> is the durable SQLite table.
\<close>

record hub =
  nodes :: "node_id \<rightharpoonup> ConnectedNode"
  connectedNodes :: "node_id list"
  nodesByWallet :: "wallet \<rightharpoonup> node_id"
  walletStats :: "wallet \<rightharpoonup> PersistedStats"
  roundRobinIndex :: nat
  totalRequestsEver :: nat
  wallet_stats_table :: "wallet \<rightharpoonup> PersistedStats"

section \<open>Double-precision arithmetic of the latency averages\<close>

text \<open>
  The two moving averages multiply and add JavaScript numbers, which are IEEE 754
  doubles, before \<^verbatim>\<open>Math.floor\<close>.  A double is written here as a pair \<open>(m, e)\<close> standing
  for \<open>m * 2^e\<close>; every operation rounds its exact result to 53 significant bits, to
  nearest, ties to even.  Overflow and subnormal numbers do not arise: the operands
  are integers below \<open>2^53\<close> in size and the four constants below.
\<close>

type_synonym double = "int \<times> int"

text \<open>The number of binary digits of a natural number.\<close>

fun bit_count :: "nat \<Rightarrow> nat" where
  "bit_count n = (if n = 0 then 0 else Suc (bit_count (n div 2)))"

declare bit_count.simps [simp del]

definition round53 :: "double \<Rightarrow> double" where
  "round53 d =
    (let m = fst d; e = snd d; n = bit_count (nat \<bar>m\<bar>) in
     if n \<le> 53 then (m, e)
     else (let s = n - 53;
               q = m div 2 ^ s;
               r = m mod 2 ^ s;
               half = 2 ^ (s - 1);
               q' = (if r > half \<or> (r = half \<and> odd q) then q + 1 else q)
           in (q', e + int s)))"

definition double_of_int :: "int \<Rightarrow> double" where
  "double_of_int a = round53 (a, 0)"

definition double_mult :: "double \<Rightarrow> double \<Rightarrow> double" where
  "double_mult x y = round53 (fst x * fst y, snd x + snd y)"

definition double_add :: "double \<Rightarrow> double \<Rightarrow> double" where
  "double_add x y =
    (let e = min (snd x) (snd y)
     in round53 (fst x * 2 ^ nat (snd x - e) + fst y * 2 ^ nat (snd y - e), e))"

text \<open>\<^verbatim>\<open>Math.floor\<close>.\<close>

definition double_floor :: "double \<Rightarrow> int" where
  "double_floor x =
    (if 0 \<le> snd x then fst x * 2 ^ nat (snd x) else fst x div 2 ^ nat (- snd x))"

text \<open>The doubles that the literals \<^verbatim>\<open>0.7\<close>, \<^verbatim>\<open>0.3\<close>, \<^verbatim>\<open>0.8\<close> and \<^verbatim>\<open>0.2\<close> denote.\<close>

definition lit_0_7 :: double where "lit_0_7 = (3152519739159347, - 52)"
definition lit_0_3 :: double where "lit_0_3 = (5404319552844595, - 54)"
definition lit_0_8 :: double where "lit_0_8 = (3602879701896397, - 52)"
definition lit_0_2 :: double where "lit_0_2 = (3602879701896397, - 54)"

text \<open>\<^verbatim>\<open>Math.floor(a * p + b * q)\<close> for integers \<open>a\<close>, \<open>b\<close> and literals \<open>p\<close>, \<open>q\<close>.\<close>

definition weighted_floor :: "int \<Rightarrow> double \<Rightarrow> int \<Rightarrow> double \<Rightarrow> int" where
  "weighted_floor a p b q =
    double_floor (double_add (double_mult (double_of_int a) p)
                             (double_mult (double_of_int b) q))"

section \<open>Relay hub: statistics persistence\<close>

text \<open>\<^verbatim>\<open>Math.floor((Date.now() - connectedAt) / 1000)\<close>.\<close>

definition uptime_seconds :: "int \<Rightarrow> int \<Rightarrow> int" where
  "uptime_seconds now connAt = (now - connAt) div 1000"

text \<open>
  \<^verbatim>\<open>persistWalletStats(wallet, stats, connectedAt)\<close>, called after every routed request
  and before a superseded connection is closed.
\<close>

definition persistWalletStats ::
  "int \<Rightarrow> wallet \<Rightarrow> NodeStats \<Rightarrow> int \<Rightarrow> (wallet \<rightharpoonup> PersistedStats) \<Rightarrow> (wallet \<rightharpoonup> PersistedStats)"
where
  "persistWalletStats now w st connAt tbl =
    (let currentUptime = uptime_seconds now connAt in
     case tbl w of
       Some existing \<Rightarrow>
         tbl(w \<mapsto> existing\<lparr>
           requestsHandled := max (requestsHandled existing) (requestsHandled st),
           cacheHits := max (cacheHits existing) (cacheHits st),
           cacheMisses := max (cacheMisses existing) (cacheMisses st),
           errors := max (errors existing) (errors st),
           avgLatencyMs :=
             (if avgLatencyMs st > 0
              then (if avgLatencyMs existing = 0 then avgLatencyMs st
                    else weighted_floor (avgLatencyMs existing) lit_0_7
                           (avgLatencyMs st) lit_0_3)
              else avgLatencyMs existing)\<rparr>)
     | None \<Rightarrow>
         tbl(w \<mapsto> \<lparr>requestsHandled = requestsHandled st,
                   avgLatencyMs = avgLatencyMs st,
                   cacheHits = cacheHits st,
                   cacheMisses = cacheMisses st,
                   errors = errors st,
                   totalUptime = currentUptime,
                   lastDisconnect = 0,
                   firstConnect = connAt,
                   lastIP = None\<rparr>))"

text \<open>\<^verbatim>\<open>wss.on('connection')\<close>: the fresh \<^verbatim>\<open>node\<close> object of a newly accepted socket.\<close>

definition new_node :: "int \<Rightarrow> node_id \<Rightarrow> string \<Rightarrow> ConnectedNode" where
  "new_node now i addr =
    \<lparr>nid = i, operator = [], name = ''Unknown'', isRegistered = False,
     bondAmount = 0, pendingEarnings = 0, totalEarned = 0,
     connectedAt = now, lastPing = now, ip = addr,
     stats = \<lparr>requestsHandled = 0, avgLatencyMs = 0, cacheHits = 0,
              cacheMisses = 0, errors = 0\<rparr>,
     node_totalUptime = None, ws_sent = [], ws_closing = False\<rparr>"

definition on_connection :: "int \<Rightarrow> node_id \<Rightarrow> string \<Rightarrow> hub \<Rightarrow> hub" where
  "on_connection now i addr h = h\<lparr>nodes := (nodes h)(i \<mapsto> new_node now i addr)\<rparr>"

text \<open>
  \<^verbatim>\<open>ws.on('close')\<close> of the socket whose closure owns node \<open>i\<close>.  The node object itself
  stays reachable from requests still in flight, so it remains in \<open>nodes\<close>.
\<close>

definition close_stats ::
  "int \<Rightarrow> ConnectedNode \<Rightarrow> (wallet \<rightharpoonup> PersistedStats) \<Rightarrow> (wallet \<rightharpoonup> PersistedStats)"
where
  "close_stats now node tbl =
    (let sessionUptime = uptime_seconds now (connectedAt node) in
     case tbl (operator node) of
       Some persisted \<Rightarrow>
         tbl(operator node \<mapsto> persisted\<lparr>
           totalUptime := totalUptime persisted + sessionUptime,
           lastDisconnect := now,
           lastIP := Some (ip node),
           requestsHandled := max (requestsHandled persisted) (requestsHandled (stats node)),
           cacheHits := max (cacheHits persisted) (cacheHits (stats node)),
           cacheMisses := max (cacheMisses persisted) (cacheMisses (stats node)),
           errors := max (errors persisted) (errors (stats node))\<rparr>)
     | None \<Rightarrow>
         tbl(operator node \<mapsto>
           \<lparr>requestsHandled = requestsHandled (stats node),
            avgLatencyMs = avgLatencyMs (stats node),
            cacheHits = cacheHits (stats node),
            cacheMisses = cacheMisses (stats node),
            errors = errors (stats node),
            totalUptime = sessionUptime,
            lastDisconnect = now,
            firstConnect = connectedAt node,
            lastIP = Some (ip node)\<rparr>))"

definition on_close :: "int \<Rightarrow> node_id \<Rightarrow> hub \<Rightarrow> hub" where
  "on_close now i h =
    (case nodes h i of
       None \<Rightarrow> h
     | Some node \<Rightarrow>
         (let h1 = (if operator node \<noteq> []
                    then h\<lparr>walletStats := close_stats now node (walletStats h),
                           nodesByWallet := (nodesByWallet h)(operator node := None)\<rparr>
                    else h)
          in h1\<lparr>connectedNodes := removeAll i (connectedNodes h1)\<rparr>))"

text \<open>
  The tail of the RPC route, run when \<^verbatim>\<open>sendToNode\<close> settles for the node chosen at
  dispatch.  \<open>Resolved start cachedFlag\<close> is a result that arrived for a request sent at
  \<open>start\<close>, \<^verbatim>\<open>result._cached\<close> being \<open>cachedFlag\<close>.  \<open>Resolved_nullish start\<close> is a reply
  whose result is \<^verbatim>\<open>null\<close> or \<^verbatim>\<open>undefined\<close>: the request and its latency are counted,
  then reading \<^verbatim>\<open>result._cached\<close> raises and the \<^verbatim>\<open>catch\<close> branch counts an error.
  \<open>Rejected\<close> is an error reply or the 30 s timeout.
\<close>

datatype rpc_outcome = Resolved int bool | Resolved_nullish int | Rejected

text \<open>The statements of the \<^verbatim>\<open>try\<close> block up to the latency average.\<close>

definition count_request :: "int \<Rightarrow> NodeStats \<Rightarrow> NodeStats" where
  "count_request latency st =
    (let st1 = st\<lparr>requestsHandled := requestsHandled st + 1\<rparr>;
         cappedLatency = min latency 5000
     in if avgLatencyMs st1 = 0
        then st1\<lparr>avgLatencyMs := cappedLatency\<rparr>
        else st1\<lparr>avgLatencyMs :=
               weighted_floor (avgLatencyMs st1) lit_0_8 cappedLatency lit_0_2\<rparr>)"

definition update_node_stats :: "int \<Rightarrow> rpc_outcome \<Rightarrow> NodeStats \<Rightarrow> NodeStats" where
  "update_node_stats now out st =
    (case out of
       Resolved start cachedFlag \<Rightarrow>
         (let st2 = count_request (now - start) st
          in if cachedFlag then st2\<lparr>cacheHits := cacheHits st2 + 1\<rparr>
             else st2\<lparr>cacheMisses := cacheMisses st2 + 1\<rparr>)
     | Resolved_nullish start \<Rightarrow>
         (let st2 = count_request (now - start) st
          in st2\<lparr>errors := errors st2 + 1\<rparr>)
     | Rejected \<Rightarrow> st\<lparr>errors := errors st + 1\<rparr>)"

definition rpc_settled :: "int \<Rightarrow> node_id \<Rightarrow> rpc_outcome \<Rightarrow> hub \<Rightarrow> hub" where
  "rpc_settled now i out h =
    (case nodes h i of
       None \<Rightarrow> h
     | Some node \<Rightarrow>
         (let node' = node\<lparr>stats := update_node_stats now out (stats node)\<rparr>;
              h1 = h\<lparr>nodes := (nodes h)(i \<mapsto> node')\<rparr>
          in if operator node' \<noteq> []
             then h1\<lparr>walletStats :=
                      persistWalletStats now (operator node') (stats node')
                        (connectedAt node') (walletStats h1)\<rparr>
             else h1))"

section \<open>Relay hub: registration\<close>

text \<open>JavaScript truthiness of an optional string: present and non-empty.\<close>

definition truthy :: "string option \<Rightarrow> bool" where
  "truthy s = (case s of None \<Rightarrow> False | Some v \<Rightarrow> v \<noteq> [])"

text \<open>One character matched by \<^verbatim>\<open>/^[0-9a-f]+$/i\<close>.\<close>

definition is_hex_char :: "char \<Rightarrow> bool" where
  "is_hex_char c = (c \<in> set ''0123456789abcdefABCDEF'')"

text \<open>
  \<^verbatim>\<open>Math.abs(now - timestamp) > 5 * 60 * 1000\<close> on a converted timestamp; a comparison
  with \<^verbatim>\<open>NaN\<close> is false.  The difference is taken in the reals: for a server clock of
  at least 600002 (ten minutes after the epoch) the double subtraction is exact
  wherever its result is within one of the bound, so the verdict is the same.
\<close>

definition outside_window :: "int \<Rightarrow> js_number \<Rightarrow> bool" where
  "outside_window now ts =
    (case ts of
       Finite t \<Rightarrow> \<bar>real_of_int now - t\<bar> > 5 * 60 * 1000
     | Infinite \<Rightarrow> True
     | NaN \<Rightarrow> False
     | Unconvertible \<Rightarrow> False)"

text \<open>
  \<^verbatim>\<open>verifySignature(wallet, timestamp, signature)\<close>, called with a truthy signature;
  \<open>None\<close> is a \<^verbatim>\<open>TypeError\<close> raised on the way.
\<close>

definition verifySignature :: "int \<Rightarrow> wallet \<Rightarrow> js_number \<Rightarrow> signature_field \<Rightarrow> bool option"
where
  "verifySignature now w timestamp sig =
    (if timestamp = Unconvertible then None
     else if outside_window now timestamp then Some False
     else (case sig of
             Signature_text s \<Rightarrow>
               if s \<noteq> [] \<and> length s = 64 \<and> list_all is_hex_char s then Some True
               else Some False
           | Signature_other \<Rightarrow> Some False
           | Signature_unconvertible \<Rightarrow> None
           | No_signature \<Rightarrow> Some False))"

text \<open>JavaScript truthiness of the signature field.\<close>

definition signature_truthy :: "signature_field \<Rightarrow> bool" where
  "signature_truthy sig =
    (case sig of
       No_signature \<Rightarrow> False
     | Signature_text s \<Rightarrow> s \<noteq> []
     | Signature_other \<Rightarrow> True
     | Signature_unconvertible \<Rightarrow> True)"

text \<open>
  The handler of a \<^verbatim>\<open>register\<close> frame up to the on-chain lookup: the first log line and
  the two authentication checks.  \<open>Refused r\<close> is the \<^verbatim>\<open>auth_failed\<close> reply with error
  text \<open>r\<close>; \<open>Raised\<close> is a \<^verbatim>\<open>TypeError\<close>, which the handler's \<^verbatim>\<open>catch\<close> logs and nothing
  else; \<open>Passed w\<close> lets wallet \<open>w\<close> through.  \<open>req\<close> is the constant
  \<^verbatim>\<open>REQUIRE_REGISTRATION\<close>.
\<close>

datatype auth_result = Passed wallet | Refused string | Raised

definition register_auth :: "bool \<Rightarrow> int \<Rightarrow> RegisterMsg \<Rightarrow> auth_result" where
  "register_auth req now msg =
    (case msg_wallet msg of
       Wallet_unsliceable \<Rightarrow> Raised
     | No_wallet \<Rightarrow> Refused ''Wallet address required''
     | Wallet_text w \<Rightarrow>
         if w = [] then Refused ''Wallet address required''
         else if req \<and> signature_truthy (msg_signature msg)
         then (case verifySignature now w (msg_timestamp msg) (msg_signature msg) of
                 None \<Rightarrow> Raised
               | Some isValid \<Rightarrow> if \<not> isValid then Refused ''Invalid signature''
                                  else Passed w)
         else Passed w)"

definition send_frame :: "ws_frame \<Rightarrow> ConnectedNode \<Rightarrow> ConnectedNode" where
  "send_frame f n = n\<lparr>ws_sent := ws_sent n @ [f]\<rparr>"

text \<open>The branch on \<^verbatim>\<open>onChainAccount && onChainAccount.isActive\<close>.\<close>

definition apply_onchain ::
  "bool \<Rightarrow> wallet \<Rightarrow> CacheNodeAccount option \<Rightarrow> ConnectedNode \<Rightarrow> ConnectedNode"
where
  "apply_onchain req w onChainAccount node =
    (case (case onChainAccount of Some acc \<Rightarrow> if isActive acc then Some acc else None
                                  | None \<Rightarrow> None) of
       Some acc \<Rightarrow> node\<lparr>isRegistered := True,
                         bondAmount := acc_bondAmount acc,
                         pendingEarnings := acc_pendingEarnings acc,
                         totalEarned := acc_totalEarned acc\<rparr>
     | None \<Rightarrow> if req then send_frame (not_registered w) node
               else node\<lparr>isRegistered := True\<rparr>)"

text \<open>"Track by wallet (disconnect old connection if exists)".\<close>

definition takeover :: "int \<Rightarrow> node_id \<Rightarrow> wallet \<Rightarrow> hub \<Rightarrow> hub" where
  "takeover now i w h =
    (case nodesByWallet h w of
       None \<Rightarrow> h
     | Some oldNodeId \<Rightarrow>
         if oldNodeId \<noteq> [] \<and> oldNodeId \<noteq> i
         then (case (if oldNodeId \<in> set (connectedNodes h) then nodes h oldNodeId else None) of
                 None \<Rightarrow> h
               | Some oldNode \<Rightarrow>
                   h\<lparr>walletStats :=
                       persistWalletStats now w (stats oldNode) (connectedAt oldNode)
                         (walletStats h),
                     nodes := (nodes h)(oldNodeId \<mapsto> oldNode\<lparr>ws_closing := True\<rparr>),
                     connectedNodes := removeAll oldNodeId (connectedNodes h)\<rparr>)
         else h)"

text \<open>"RESTORE PERSISTED STATS on reconnect".\<close>

definition restore_stats :: "PersistedStats option \<Rightarrow> ConnectedNode \<Rightarrow> ConnectedNode" where
  "restore_stats persistedStats node =
    (case persistedStats of
       None \<Rightarrow> node
     | Some p \<Rightarrow>
         (let st = (stats node)\<lparr>requestsHandled := requestsHandled p,
                               avgLatencyMs := avgLatencyMs p,
                               cacheHits := cacheHits p,
                               cacheMisses := cacheMisses p,
                               errors := errors p\<rparr>;
              st' = (if truthy (lastIP p) \<and> lastIP p \<noteq> Some (ip node)
                     then st\<lparr>avgLatencyMs := 0, errors := 0\<rparr>
                     else st)
          in node\<lparr>stats := st', node_totalUptime := Some (totalUptime p)\<rparr>))"

text \<open>\<^verbatim>\<open>connectedNodes.set(nodeId, node)\<close>: a key already present keeps its position.\<close>

definition map_set_key :: "node_id \<Rightarrow> node_id list \<Rightarrow> node_id list" where
  "map_set_key i ks = (if i \<in> set ks then ks else ks @ [i])"

text \<open>
  The part of \<^verbatim>\<open>case 'register'\<close> after the authentication checks, for wallet \<open>w\<close>.
  \<open>chain\<close> is what \<^verbatim>\<open>getOnChainNodeAccount(wallet)\<close> returned (it is only consulted when
  registration is required).  The handler awaits that lookup before it reads or writes
  any table, so everything below happens in one step at the time the lookup returns.
\<close>

definition admit ::
  "bool \<Rightarrow> int \<Rightarrow> node_id \<Rightarrow> wallet \<Rightarrow> string option \<Rightarrow> CacheNodeAccount option \<Rightarrow>
   ConnectedNode \<Rightarrow> hub \<Rightarrow> hub"
where
  "admit req now i w nm chain node h =
    (let onChainAccount = (if req then chain else None);
         node1 = node\<lparr>operator := w,
                      name := (case nm of Some n \<Rightarrow> if n \<noteq> [] then n else ''Node-'' @ i
                                        | None \<Rightarrow> ''Node-'' @ i)\<rparr>;
         node2 = apply_onchain req w onChainAccount node1;
         h1 = takeover now i w h;
         persistedStats = walletStats h1 w;
         node3 = restore_stats persistedStats node2;
         node4 = send_frame
                   (registered i (isRegistered node3)
                      (map_option (\<lambda>p. (requestsHandled p, totalUptime p)) persistedStats))
                   node3
     in h1\<lparr>nodesByWallet := (nodesByWallet h1)(w \<mapsto> i),
           connectedNodes := map_set_key i (connectedNodes h1),
           nodes := (nodes h1)(i \<mapsto> node4)\<rparr>)"

text \<open>\<^verbatim>\<open>case 'register'\<close> on the socket of node \<open>i\<close>.\<close>

definition on_register ::
  "bool \<Rightarrow> int \<Rightarrow> node_id \<Rightarrow> RegisterMsg \<Rightarrow> CacheNodeAccount option \<Rightarrow> hub \<Rightarrow> hub"
where
  "on_register req now i msg chain h =
    (case nodes h i of
       None \<Rightarrow> h
     | Some node \<Rightarrow>
         (case register_auth req now msg of
            Refused reason \<Rightarrow>
              h\<lparr>nodes := (nodes h)(i \<mapsto> (send_frame (auth_failed reason) node)
                                           \<lparr>ws_closing := True\<rparr>)\<rparr>
          | Raised \<Rightarrow> h
          | Passed w \<Rightarrow> admit req now i w (msg_name msg) chain node h))"

definition on_pong :: "int \<Rightarrow> node_id \<Rightarrow> hub \<Rightarrow> hub" where
  "on_pong now i h =
    (case nodes h i of
       None \<Rightarrow> h
     | Some node \<Rightarrow> h\<lparr>nodes := (nodes h)(i \<mapsto> node\<lparr>lastPing := now\<rparr>)\<rparr>)"

section \<open>Relay hub: routing\<close>

text \<open>The candidate filter at the head of the RPC route.\<close>

definition eligible :: "bool \<Rightarrow> int \<Rightarrow> ConnectedNode \<Rightarrow> bool" where
  "eligible req now n =
    (if \<not> req then True
     else if \<not> isRegistered n then False
     else now - lastPing n < 120000)"

text \<open>
  The predicate of \<^verbatim>\<open>healthyNodes = nodes.filter(...)\<close>.  The quotient is taken in the
  reals; the source's double division gives the same verdict against \<^verbatim>\<open>0.3\<close> for all
  counters below \<open>2^50\<close>.
\<close>

definition healthy :: "ConnectedNode \<Rightarrow> bool" where
  "healthy n =
    (if requestsHandled (stats n) < 5 then True
     else if real_of_int (errors (stats n)) / real_of_int (requestsHandled (stats n)) > 0.3
          then False
     else if avgLatencyMs (stats n) > 3000 then False
     else True)"

text \<open>The sort key: \<^verbatim>\<open>requestsHandled < 5 ? 500 : avgLatencyMs\<close>.\<close>

definition effective_latency :: "ConnectedNode \<Rightarrow> int" where
  "effective_latency n =
    (if requestsHandled (stats n) < 5 then 500 else avgLatencyMs (stats n))"

text \<open>
  \<^verbatim>\<open>availableNodes\<close> after the stable sort, and
  \<^verbatim>\<open>slice(0, Math.max(3, Math.ceil(availableNodes.length / 2)))\<close>.
\<close>

definition availableNodes :: "ConnectedNode list \<Rightarrow> ConnectedNode list" where
  "availableNodes ns =
    (let healthyNodes = filter healthy ns
     in sort_key effective_latency (if healthyNodes \<noteq> [] then healthyNodes else ns))"

definition fastPool :: "ConnectedNode list \<Rightarrow> ConnectedNode list" where
  "fastPool avail = take (max 3 ((length avail + 1) div 2)) avail"

text \<open>\<^verbatim>\<open>roundRobinIndex = (roundRobinIndex + 1) % fastPool.length\<close>.\<close>

definition next_index :: "nat \<Rightarrow> nat \<Rightarrow> nat" where
  "next_index r k = (r + 1) mod k"

definition candidates :: "bool \<Rightarrow> int \<Rightarrow> hub \<Rightarrow> ConnectedNode list" where
  "candidates req now h =
    filter (eligible req now) (List.map_filter (nodes h) (connectedNodes h))"

text \<open>
  Node selection of the RPC route: \<open>None\<close> is the 503 answer, otherwise the chosen node
  and the hub with the advanced index.
\<close>

definition route :: "bool \<Rightarrow> int \<Rightarrow> hub \<Rightarrow> ConnectedNode option \<times> hub" where
  "route req now h =
    (let ns = candidates req now h in
     if ns = [] then (None, h)
     else (let pool = fastPool (availableNodes ns);
               r = next_index (roundRobinIndex h) (length pool)
           in (Some (pool ! r),
               h\<lparr>roundRobinIndex := r, totalRequestsEver := totalRequestsEver h + 1\<rparr>)))"



section \<open>Relay hub: durable store and process life cycle\<close>

text \<open>
  \<^verbatim>\<open>saveWalletStats()\<close>: one \<^verbatim>\<open>INSERT OR REPLACE\<close> per entry of \<^verbatim>\<open>walletStats\<close>; the table
  has no column for \<^verbatim>\<open>lastIP\<close>.
\<close>

definition saveWalletStats :: "hub \<Rightarrow> hub" where
  "saveWalletStats h =
    h\<lparr>wallet_stats_table :=
        (\<lambda>w. case walletStats h w of
                Some s \<Rightarrow> Some (s\<lparr>lastIP := None\<rparr>)
              | None \<Rightarrow> wallet_stats_table h w)\<rparr>"

text \<open>
  A freshly started process after \<^verbatim>\<open>loadWalletStats()\<close> over the durable table (the JSON
  file that stands in when SQLite fails is taken to be the same store).
\<close>

definition start_process :: "(wallet \<rightharpoonup> PersistedStats) \<Rightarrow> hub" where
  "start_process tbl =
    \<lparr>nodes = Map.empty, connectedNodes = [], nodesByWallet = Map.empty,
     walletStats = (\<lambda>w. map_option (\<lambda>row. row\<lparr>lastIP := None\<rparr>) (tbl w)),
     roundRobinIndex = 0, totalRequestsEver = 0, wallet_stats_table = tbl\<rparr>"

text \<open>
  The events of a hub's life.  \<open>Shutdown_Restart\<close> is the SIGTERM/SIGINT handler
  (which saves) followed by a new process; \<open>Crash_Restart\<close> is a new process without
  that save.
\<close>

datatype event =
    Connection int node_id string
  | Register int node_id RegisterMsg "CacheNodeAccount option"
  | Pong int node_id
  | Route int
  | RpcSettled int node_id rpc_outcome
  | Close int node_id
  | SaveTimer
  | Shutdown_Restart
  | Crash_Restart

fun step :: "bool \<Rightarrow> event \<Rightarrow> hub \<Rightarrow> hub" where
  "step req (Connection now i addr) h = on_connection now i addr h"
| "step req (Register now i msg chain) h = on_register req now i msg chain h"
| "step req (Pong now i) h = on_pong now i h"
| "step req (Route now) h = snd (route req now h)"
| "step req (RpcSettled now i out) h = rpc_settled now i out h"
| "step req (Close now i) h = on_close now i h"
| "step req SaveTimer h = saveWalletStats h"
| "step req Shutdown_Restart h = start_process (wallet_stats_table (saveWalletStats h))"
| "step req Crash_Restart h = start_process (wallet_stats_table h)"

definition run :: "bool \<Rightarrow> event list \<Rightarrow> hub \<Rightarrow> hub" where
  "run req evs h = fold (step req) evs h"


section \<open>Node agent: response cache\<close>

text \<open>
  The cache of the node agent (\<^verbatim>\<open>node.js\<close>): a JavaScript \<^verbatim>\<open>Map\<close> from key strings to
  entries, kept here as an association list in insertion order (\<^verbatim>\<open>Map.set\<close> on a
  present key replaces the value in place, on a new key appends).
\<close>

record CacheEntry =
  entry_data :: string
  entry_ts :: int
  entry_size :: int

type_synonym cache = "(string \<times> CacheEntry) list"

definition CACHE_MAX_SIZE :: nat where
  "CACHE_MAX_SIZE = 5000"

text \<open>The own properties of the object literal \<^verbatim>\<open>CACHE_TTL\<close>, in milliseconds.\<close>

definition CACHE_TTL :: "(string \<times> int) list" where
  "CACHE_TTL =
    [(''getSlot'', 500), (''getBlockHeight'', 500), (''getRecentBlockhash'', 500),
     (''getLatestBlockhash'', 500),
     (''getAccountInfo'', 800), (''getBalance'', 1500), (''getTokenAccountBalance'', 1500),
     (''getTokenAccountsByOwner'', 3000), (''getProgramAccounts'', 5000),
     (''getMultipleAccounts'', 800),
     (''getBlock'', 60000), (''getTransaction'', 300000),
     (''getSignaturesForAddress'', 5000), (''getConfirmedTransaction'', 300000),
     (''getEpochInfo'', 30000), (''getEpochSchedule'', 300000), (''getHealth'', 5000),
     (''getVersion'', 300000), (''getGenesisHash'', 3600000),
     (''getMinimumBalanceForRentExemption'', 60000), (''getClusterNodes'', 60000),
     (''getVoteAccounts'', 30000), (''getSupply'', 30000), (''getInflationRate'', 60000),
     (''default'', 1000)]"

text \<open>
  \<^verbatim>\<open>CACHE_TTL\<close> is a plain object, so an index that is not an own property but a member
  of \<^verbatim>\<open>Object.prototype\<close> yields that (truthy, non-numeric) member instead of
  \<^verbatim>\<open>undefined\<close>.
\<close>

definition Object_prototype_members :: "string list" where
  "Object_prototype_members =
    [''constructor'', ''hasOwnProperty'', ''isPrototypeOf'', ''propertyIsEnumerable'',
     ''toLocaleString'', ''toString'', ''valueOf'', ''__defineGetter__'',
     ''__defineSetter__'', ''__lookupGetter__'', ''__lookupSetter__'', ''__proto__'']"

datatype ttl_value = Millis int | NotANumber

text \<open>\<^verbatim>\<open>CACHE_TTL[method] || CACHE_TTL['default']\<close>.\<close>

definition ttl_of :: "string \<Rightarrow> ttl_value" where
  "ttl_of method =
    (case map_of CACHE_TTL method of
       Some t \<Rightarrow> Millis t
     | None \<Rightarrow> if method \<in> set Object_prototype_members then NotANumber else Millis 1000)"

text \<open>
  \<^verbatim>\<open>Date.now() - cachedData.ts < ttl\<close>; a non-numeric \<^verbatim>\<open>ttl\<close> converts to \<^verbatim>\<open>NaN\<close> and the
  comparison is false.
\<close>

definition fresh :: "int \<Rightarrow> int \<Rightarrow> ttl_value \<Rightarrow> bool" where
  "fresh now ts ttl = (case ttl of Millis t \<Rightarrow> now - ts < t | NotANumber \<Rightarrow> False)"

definition NO_CACHE_METHODS :: "string list" where
  "NO_CACHE_METHODS =
    [''sendTransaction'', ''sendRawTransaction'', ''simulateTransaction'',
     ''requestAirdrop'', ''getSignatureStatuses'', ''getRecentPerformanceSamples'',
     ''getFeeForMessage'']"

text \<open>
  What \<^verbatim>\<open>fetchRPC\<close> yields when it is called: \<open>Failed\<close> is a rejected promise, \<open>Fetched\<close> a
  parsed reply, of which the agent inspects whether the value is truthy
  (\<open>body_truthy\<close>) and whether its \<^verbatim>\<open>error\<close> member is truthy (\<open>body_error\<close>).
\<close>

record rpc_reply =
  body :: string
  body_truthy :: bool
  body_error :: bool
  body_size :: int

datatype fetch = Fetched rpc_reply | Failed string

text \<open>What one request produced: the frame fields and whether \<^verbatim>\<open>fetchRPC\<close> ran.\<close>

record request_outcome =
  out_result :: "string option"
  out_error :: "string option"
  out_cached :: bool
  out_fetched :: bool

text \<open>\<^verbatim>\<open>msg.payload?.method || 'unknown'\<close>.\<close>

definition request_method :: "string option \<Rightarrow> string" where
  "request_method m = (case m of Some s \<Rightarrow> if s \<noteq> [] then s else ''unknown''
                                | None \<Rightarrow> ''unknown'')"

text \<open>
  "Evict old entries if cache is too large": the first
  \<^verbatim>\<open>Math.floor(CACHE_MAX_SIZE * 0.1)\<close> keys of the map are deleted (every key contains a
  colon, so the guard \<^verbatim>\<open>if (k)\<close> holds).
\<close>

definition evict :: "cache \<Rightarrow> cache" where
  "evict c = (if length c > CACHE_MAX_SIZE then drop (CACHE_MAX_SIZE div 10) c else c)"

text \<open>
  \<^verbatim>\<open>handleRequest(msg)\<close> with the time-to-live already looked up.  \<open>now\<close> is the clock at
  the cache check, \<open>stored_at\<close> the clock when a fetched reply is stored, \<open>params\<close> the
  text \<^verbatim>\<open>JSON.stringify(msg.payload?.params || [])\<close>, and \<open>upstream\<close> what \<^verbatim>\<open>fetchRPC\<close>
  yields if it is called.
\<close>

definition handleRequest_ttl ::
  "ttl_value \<Rightarrow> int \<Rightarrow> int \<Rightarrow> string \<Rightarrow> string \<Rightarrow> fetch \<Rightarrow> cache \<Rightarrow> cache \<times> request_outcome"
where
  "handleRequest_ttl ttl now stored_at method params upstream c =
    (let key = method @ '':'' @ params;
         shouldCache = (method \<notin> set NO_CACHE_METHODS);
         hit = (if shouldCache
                then (case map_of c key of
                        Some cachedData \<Rightarrow>
                          if fresh now (entry_ts cachedData) ttl then Some cachedData else None
                      | None \<Rightarrow> None)
                else None)
     in case hit of
          Some cachedData \<Rightarrow>
            (c, \<lparr>out_result = Some (entry_data cachedData), out_error = None,
                 out_cached = True, out_fetched = False\<rparr>)
        | None \<Rightarrow>
            (case upstream of
               Failed e \<Rightarrow>
                 (c, \<lparr>out_result = None, out_error = Some e,
                      out_cached = False, out_fetched = True\<rparr>)
             | Fetched res \<Rightarrow>
                 (if shouldCache \<and> body_truthy res \<and> \<not> body_error res
                  then evict (AList.update key
                                \<lparr>entry_data = body res, entry_ts = stored_at,
                                 entry_size = body_size res\<rparr> c)
                  else c,
                  \<lparr>out_result = Some (body res), out_error = None,
                   out_cached = False, out_fetched = True\<rparr>)))"

definition handleRequest ::
  "int \<Rightarrow> int \<Rightarrow> string option \<Rightarrow> string \<Rightarrow> fetch \<Rightarrow> cache \<Rightarrow> cache \<times> request_outcome"
where
  "handleRequest now stored_at m params upstream c =
    handleRequest_ttl (ttl_of (request_method m)) now stored_at (request_method m)
      params upstream c"

section \<open>Predicates used in the statements\<close>





text \<open>
  Comparing two readings of a counter that may not exist yet: once it exists it must
  still exist and be no smaller.
\<close>

definition never_below :: "int option \<Rightarrow> int option \<Rightarrow> bool" where
  "never_below a b =
    (case a of None \<Rightarrow> True
             | Some x \<Rightarrow> (case b of None \<Rightarrow> False | Some y \<Rightarrow> x \<le> y))"

text \<open>\<open>requestsHandled\<close> of a wallet in the process's \<^verbatim>\<open>walletStats\<close> and in the durable
  table.\<close>

definition live_count :: "hub \<Rightarrow> wallet \<Rightarrow> int option" where
  "live_count h w = map_option requestsHandled (walletStats h w)"

definition stored_count :: "hub \<Rightarrow> wallet \<Rightarrow> int option" where
  "stored_count h w = map_option requestsHandled (wallet_stats_table h w)"

text \<open>The durable table never runs ahead of the process's statistics.\<close>

definition dominated :: "hub \<Rightarrow> bool" where
  "dominated h = (\<forall>w. never_below (stored_count h w) (live_count h w))"


section \<open>Example inputs\<close>

text \<open>A \<^verbatim>\<open>register\<close> frame as the relay's README documents it: a wallet and nothing to
  authenticate it.\<close>

definition plain_register :: "wallet \<Rightarrow> RegisterMsg" where
  "plain_register w =
    \<lparr>msg_wallet = Wallet_text w, msg_name = None, msg_timestamp = NaN,
     msg_signature = No_signature\<rparr>"

definition bonded_account :: CacheNodeAccount where
  "bonded_account =
    \<lparr>isActive = True, acc_bondAmount = 1000000, acc_pendingEarnings = 0,
     acc_totalEarned = 0\<rparr>"

text \<open>
  Two registered, responsive nodes: \<open>node_A\<close> with no errors in 10 requests and 50 ms
  average latency, \<open>node_B\<close> with 4 errors in 10 requests and 40 ms.
\<close>

definition node_A :: ConnectedNode where
  "node_A = (new_node 0 ''a'' ''10.0.0.1'')
    \<lparr>operator := ''WA'', isRegistered := True,
     stats := \<lparr>requestsHandled = 10, avgLatencyMs = 50, cacheHits = 3, cacheMisses = 7,
               errors = 0\<rparr>\<rparr>"










text \<open>
  A hub in which wallet \<open>W\<close> has served from address 10.0.0.9 (one failed and one
  successful request) and disconnected, and a new socket \<open>n1\<close> has just been accepted
  from address 10.0.0.1.
\<close>

definition returning_wallet_hub :: hub where
  "returning_wallet_hub =
    run True
      [Connection 0 ''n0'' ''10.0.0.9'',
       Register 0 ''n0'' (plain_register ''W'') (Some bonded_account),
       RpcSettled 2000 ''n0'' Rejected,
       RpcSettled 3000 ''n0'' (Resolved 2100 True),
       Close 60000 ''n0'',
       Connection 70000 ''n1'' ''10.0.0.1'']
      (start_process Map.empty)"

text \<open>A persisted entry with 12 handled requests.\<close>

definition saved_entry :: PersistedStats where
  "saved_entry =
    \<lparr>requestsHandled = 12, avgLatencyMs = 0, cacheHits = 0, cacheMisses = 0,
     errors = 0, totalUptime = 0, lastDisconnect = 0, firstConnect = 0, lastIP = None\<rparr>"

lemmas hub_defs =
  run_def on_connection_def on_register_def on_close_def on_pong_def rpc_settled_def
  new_node_def register_auth_def verifySignature_def admit_def apply_onchain_def
  takeover_def restore_stats_def send_frame_def map_set_key_def close_stats_def
  persistWalletStats_def update_node_stats_def count_request_def uptime_seconds_def start_process_def
  saveWalletStats_def truthy_def signature_truthy_def outside_window_def

section \<open>Double-precision arithmetic: rounding\<close>

lemma bit_count_bounds: "n < 2 ^ bit_count n \<and> (0 < n \<longrightarrow> 2 ^ bit_count n \<le> 2 * n)"
proof (induction n rule: bit_count.induct)
  case (1 n)
  show ?case
  proof (cases "n = 0")
    case True
    then show ?thesis by (subst bit_count.simps) simp
  next
    case False
    have b: "bit_count n = Suc (bit_count (n div 2))"
      using False by (subst bit_count.simps) simp
    have ih: "n div 2 < 2 ^ bit_count (n div 2)"
      "0 < n div 2 \<longrightarrow> 2 ^ bit_count (n div 2) \<le> 2 * (n div 2)"
      using 1[OF False] by simp_all
    have up: "n < 2 ^ bit_count n" using ih(1) b by simp
    have lo: "2 ^ bit_count n \<le> 2 * n"
    proof (cases "n div 2 = 0")
      case True
      then have "n = 1" using False by (simp add: div_eq_0_iff)
      moreover have "bit_count (0::nat) = 0" by (subst bit_count.simps) simp
      ultimately show ?thesis using b by simp
    next
      case F: False
      then have "2 ^ bit_count (n div 2) \<le> 2 * (n div 2)" using ih(2) by simp
      then show ?thesis using b by simp
    qed
    show ?thesis using up lo by simp
  qed
qed

text \<open>A number between \<open>2^k\<close> and \<open>2^(k+1)\<close> has \<open>k + 1\<close> binary digits.\<close>

lemma bit_count_eq:
  assumes "2 ^ k \<le> n" and "n < 2 ^ Suc k"
  shows "bit_count n = Suc k"
proof -
  have "(0::nat) < 2 ^ k" by simp
  then have p: "0 < n" using assms(1) by linarith
  have u: "n < 2 ^ bit_count n" and l: "2 ^ bit_count n \<le> 2 * n"
    using bit_count_bounds[of n] p by simp_all
  have "(2::nat) ^ k < 2 ^ bit_count n" using assms(1) u by linarith
  then have a: "k < bit_count n" by (simp add: power_strict_increasing_iff)
  have "(2::nat) ^ bit_count n < 2 ^ Suc (Suc k)" using l assms(2) by simp
  then have "bit_count n < Suc (Suc k)" by (simp only: power_strict_increasing_iff)
  then show ?thesis using a by linarith
qed

text \<open>
  The rounding is visible in the results: \<^verbatim>\<open>Math.floor(3 * 0.7 + 3 * 0.3)\<close> is 2, because
  the sum of the two rounded products is \<open>2.9999999999999996\<close>; and a node that averaged
  50 ms and answers in 2100 ms has the average \<^verbatim>\<open>Math.floor(50 * 0.8 + 2100 * 0.2)\<close>,
  which is 460.
\<close>

lemma weighted_floor_three: "weighted_floor 3 lit_0_7 3 lit_0_3 = 2"
proof -
  have b: "bit_count 3 = 2" "bit_count 9457559217478041 = 54"
    "bit_count 16212958658533785 = 54" "bit_count 27021597764222972 = 55"
    using bit_count_eq[of 1 3] bit_count_eq[of 53 9457559217478041]
      bit_count_eq[of 53 16212958658533785] bit_count_eq[of 54 27021597764222972]
    by simp_all
  have x: "double_of_int 3 = (3, 0)"
    by (simp add: double_of_int_def round53_def b)
  have p: "double_mult (3, 0) lit_0_7 = (4728779608739020, - 51)"
    by (simp add: double_mult_def round53_def lit_0_7_def b Let_def)
  have q: "double_mult (3, 0) lit_0_3 = (8106479329266892, - 53)"
    by (simp add: double_mult_def round53_def lit_0_3_def b Let_def)
  have a: "double_add (4728779608739020, - 51) (8106479329266892, - 53)
             = (6755399441055743, - 51)"
    by (simp add: double_add_def round53_def b Let_def)
  show ?thesis
    by (simp add: weighted_floor_def x p q a double_floor_def)
qed

lemma weighted_floor_sample: "weighted_floor 50 lit_0_8 2100 lit_0_2 = 460"
proof -
  have b: "bit_count 50 = 6" "bit_count 180143985094819850 = 58" "bit_count 2100 = 12"
    "bit_count 7566047373982433700 = 63" "bit_count 64739244643450880 = 56"
    using bit_count_eq[of 5 50] bit_count_eq[of 57 180143985094819850]
      bit_count_eq[of 11 2100] bit_count_eq[of 62 7566047373982433700]
      bit_count_eq[of 55 64739244643450880]
    by simp_all
  show ?thesis
    by (simp add: weighted_floor_def double_floor_def double_add_def double_mult_def
        double_of_int_def round53_def lit_0_8_def lit_0_2_def b Let_def)
qed

section \<open>Round-robin selection\<close>









text \<open>The router's choice is the pool member at the advanced index, which it stores.\<close>

lemma route_advances_index:
  assumes "candidates req now h \<noteq> []"
  shows "fst (route req now h)
           = Some (fastPool (availableNodes (candidates req now h))
                     ! next_index (roundRobinIndex h)
                         (length (fastPool (availableNodes (candidates req now h)))))"
    and "roundRobinIndex (snd (route req now h))
           = next_index (roundRobinIndex h)
               (length (fastPool (availableNodes (candidates req now h))))"
  using assms by (simp_all add: route_def Let_def)













section \<open>Health filter and node choice\<close>



section \<open>Uptime accounting\<close>

lemma persist_keeps_uptime:
  "tbl w = Some p \<Longrightarrow>
   map_option totalUptime (persistWalletStats now w st c tbl w) = Some (totalUptime p)"
  by (simp add: persistWalletStats_def)

lemma close_adds_session:
  "tbl (operator node) = Some p \<Longrightarrow>
   map_option totalUptime (close_stats now node tbl (operator node))
     = Some (totalUptime p + uptime_seconds now (connectedAt node))"
  by (simp add: close_stats_def)

text \<open>
  \<^bold>\<open>Claim C1.\<close>  The claim: after sessions of durations \<open>d1..dN\<close> the persisted
  \<open>totalUptime\<close> is their sum, the per-request persistence never adding uptime.  The
  code at a first session of a wallet without persisted statistics: the socket connects
  at time 0, registers, one routed request settles at 10 s, the socket closes at 20 s.
  The session lasted 20 s, but the per-request path created the wallet's entry with
  the 10 s elapsed so far and the close handler then added the full 20 s: the
  persisted total is 30.
\<close>

theorem first_session_uptime_counted_twice:
  "map_option totalUptime
     (walletStats
        (run True
           [Connection 0 ''n1'' ''10.0.0.1'',
            Register 0 ''n1'' (plain_register ''W'') (Some bonded_account),
            RpcSettled 10000 ''n1'' (Resolved 9950 False),
            Close 20000 ''n1'']
           (start_process Map.empty))
        ''W'') = Some 30
   \<and> uptime_seconds 20000 0 = 20"
  by (simp add: hub_defs plain_register_def bonded_account_def Let_def)

section \<open>One connection per wallet\<close>

text \<open>The take-over itself: an admitted frame for a wallet whose index entry points to
  another connected socket flushes that socket's counters, asks it to close, removes it
  from the registry, and enters the new socket.\<close>

lemma register_takes_over:
  assumes node: "nodes h i = Some node"
    and auth: "register_auth req now msg = Passed w"
    and old: "nodesByWallet h w = Some old" "old \<noteq> []" "old \<noteq> i"
      "old \<in> set (connectedNodes h)" "nodes h old = Some oldNode"
  shows "old \<notin> set (connectedNodes (on_register req now i msg chain h))"
    and "nodes (on_register req now i msg chain h) old = Some (oldNode\<lparr>ws_closing := True\<rparr>)"
    and "walletStats (on_register req now i msg chain h)
           = persistWalletStats now w (stats oldNode) (connectedAt oldNode) (walletStats h)"
    and "nodesByWallet (on_register req now i msg chain h) w = Some i"
    and "i \<in> set (connectedNodes (on_register req now i msg chain h))"
proof -
  have e: "on_register req now i msg chain h
             = admit req now i w (msg_name msg) chain node h"
    using node auth by (simp add: on_register_def)
  have t: "takeover now i w h =
      h\<lparr>walletStats := persistWalletStats now w (stats oldNode) (connectedAt oldNode)
                          (walletStats h),
        nodes := (nodes h)(old \<mapsto> oldNode\<lparr>ws_closing := True\<rparr>),
        connectedNodes := removeAll old (connectedNodes h)\<rparr>"
    using old by (simp add: takeover_def)
  show "old \<notin> set (connectedNodes (on_register req now i msg chain h))"
    unfolding e using old(3) by (simp add: admit_def Let_def t map_set_key_def)
  show "nodes (on_register req now i msg chain h) old = Some (oldNode\<lparr>ws_closing := True\<rparr>)"
    unfolding e using old(3) by (simp add: admit_def Let_def t)
  show "walletStats (on_register req now i msg chain h)
           = persistWalletStats now w (stats oldNode) (connectedAt oldNode) (walletStats h)"
    unfolding e by (simp add: admit_def Let_def t)
  show "nodesByWallet (on_register req now i msg chain h) w = Some i"
    unfolding e by (simp add: admit_def Let_def)
  show "i \<in> set (connectedNodes (on_register req now i msg chain h))"
    unfolding e by (simp add: admit_def Let_def map_set_key_def)
qed

text \<open>
  \<^bold>\<open>Claim C2.\<close>  The claim: a second registration for a wallet flushes, closes and
  removes the first connection before the second is admitted, and after the first
  socket's close event the wallet index still maps the wallet to the second connection.
  The code: wallet \<open>W\<close> registers on socket \<open>n1\<close> and then on socket \<open>n2\<close>.  The take-over
  happens as claimed (\<open>n1\<close> is told to close and leaves the registry, the index points to
  \<open>n2\<close>); but when the close event of \<open>n1\<close> arrives its handler deletes the index entry
  of \<open>W\<close>, although \<open>n2\<close> is connected.  A third registration of \<open>W\<close> on socket \<open>n3\<close>
  therefore finds no connection to replace, and \<open>n2\<close> and \<open>n3\<close> are both in the registry
  for \<open>W\<close>, neither closed.
\<close>

theorem close_of_replaced_socket_unmaps_wallet:
  "(let h = run True
              [Connection 0 ''n1'' ''10.0.0.1'',
               Register 0 ''n1'' (plain_register ''W'') (Some bonded_account),
               Connection 5000 ''n2'' ''10.0.0.1'',
               Register 5000 ''n2'' (plain_register ''W'') (Some bonded_account)]
              (start_process Map.empty);
        h3 = run True
               [Close 5100 ''n1'',
                Connection 6000 ''n3'' ''10.0.0.1'',
                Register 6000 ''n3'' (plain_register ''W'') (Some bonded_account)] h
    in nodesByWallet h ''W'' = Some ''n2'' \<and> connectedNodes h = [''n2'']
       \<and> map_option ws_closing (nodes h ''n1'') = Some True
       \<and> nodesByWallet (on_close 5100 ''n1'' h) ''W'' = None
       \<and> connectedNodes (on_close 5100 ''n1'' h) = [''n2'']
       \<and> connectedNodes h3 = [''n2'', ''n3'']
       \<and> map_option operator (nodes h3 ''n2'') = Some ''W''
       \<and> map_option operator (nodes h3 ''n3'') = Some ''W''
       \<and> map_option ws_closing (nodes h3 ''n2'') = Some False)"
  by (simp add: hub_defs plain_register_def bonded_account_def Let_def)

section \<open>Registration: authentication\<close>








section \<open>Registration: restoring statistics\<close>

lemma takeover_entry:
  assumes "walletStats h w = Some p"
  shows "\<exists>p'. walletStats (takeover now i w h) w = Some p'
            \<and> totalUptime p' = totalUptime p \<and> lastIP p' = lastIP p
            \<and> ((nodesByWallet h w = None \<or> nodesByWallet h w = Some i) \<longrightarrow> p' = p)"
  using assms
  by (auto simp: takeover_def persistWalletStats_def Let_def split: option.splits)

text \<open>
  \<^bold>\<open>Claim C9.\<close>  Let a \<^verbatim>\<open>register\<close> frame pass authentication for wallet \<open>w\<close>, let the
  wallet have persisted statistics whose recorded last address \<open>a\<close> is a (non-empty)
  address, and let the socket's address differ from \<open>a\<close>.  Then the connection's
  \<open>avgLatencyMs\<close> and \<open>errors\<close> are seeded with zero, its \<open>requestsHandled\<close>, \<open>cacheHits\<close>
  and \<open>cacheMisses\<close> with the wallet's persisted values, and the persisted \<open>totalUptime\<close>
  is what it was (and is what the connection reports).  The persisted values are those
  at seeding time: they are the ones from before the frame unless another live
  connection of the wallet was flushed by this registration.
\<close>

theorem ip_change_resets_penalties:
  assumes node: "nodes h i = Some node"
    and auth: "register_auth req now msg = Passed w"
    and persisted: "walletStats h w = Some p"
    and recorded: "lastIP p = Some a" "a \<noteq> []"
    and changed: "a \<noteq> ip node"
  shows "\<exists>node' p'. nodes (on_register req now i msg chain h) i = Some node'
           \<and> walletStats (on_register req now i msg chain h) w = Some p'
           \<and> avgLatencyMs (stats node') = 0 \<and> errors (stats node') = 0
           \<and> requestsHandled (stats node') = requestsHandled p'
           \<and> cacheHits (stats node') = cacheHits p'
           \<and> cacheMisses (stats node') = cacheMisses p'
           \<and> totalUptime p' = totalUptime p
           \<and> node_totalUptime node' = Some (totalUptime p)
           \<and> ((nodesByWallet h w = None \<or> nodesByWallet h w = Some i) \<longrightarrow> p' = p)"
proof -
  obtain p' where p': "walletStats (takeover now i w h) w = Some p'"
      "totalUptime p' = totalUptime p" "lastIP p' = lastIP p"
      "(nodesByWallet h w = None \<or> nodesByWallet h w = Some i) \<longrightarrow> p' = p"
    using takeover_entry[OF persisted, of now i] by blast
  have e: "on_register req now i msg chain h
             = admit req now i w (msg_name msg) chain node h"
    using node auth by (simp add: on_register_def)
  have ipn: "ip (apply_onchain req w c (node\<lparr>operator := w, name := n\<rparr>)) = ip node"
    for c n
    by (simp add: apply_onchain_def send_frame_def split: option.splits)
  show ?thesis
    unfolding e using p' recorded changed
    by (simp add: admit_def Let_def send_frame_def restore_stats_def truthy_def ipn)
qed

theorem ip_change_resets_penalties_witness:
  "walletStats returning_wallet_hub ''W''
     = Some \<lparr>requestsHandled = 1, avgLatencyMs = 900, cacheHits = 1, cacheMisses = 0,
             errors = 1, totalUptime = 62, lastDisconnect = 60000, firstConnect = 0,
             lastIP = Some ''10.0.0.9''\<rparr>
   \<and> map_option ip (nodes returning_wallet_hub ''n1'') = Some ''10.0.0.1''
   \<and> map_option stats
        (nodes (on_register True 70500 ''n1'' (plain_register ''W'') (Some bonded_account)
                  returning_wallet_hub) ''n1'')
       = Some \<lparr>requestsHandled = 1, avgLatencyMs = 0, cacheHits = 1, cacheMisses = 0,
               errors = 0\<rparr>
   \<and> map_option totalUptime
        (walletStats (on_register True 70500 ''n1'' (plain_register ''W'')
                        (Some bonded_account) returning_wallet_hub) ''W'') = Some 62"
proof -
  have n: "nodes returning_wallet_hub ''n1'' = Some (new_node 70000 ''n1'' ''10.0.0.1'')"
    by (simp add: hub_defs plain_register_def bonded_account_def
        returning_wallet_hub_def Let_def)
  have a: "register_auth True 70500 (plain_register ''W'') = Passed ''W''"
    by (simp add: register_auth_def plain_register_def signature_truthy_def)
  have p: "walletStats returning_wallet_hub ''W''
     = Some \<lparr>requestsHandled = 1, avgLatencyMs = 900, cacheHits = 1, cacheMisses = 0,
             errors = 1, totalUptime = 62, lastDisconnect = 60000, firstConnect = 0,
             lastIP = Some ''10.0.0.9''\<rparr>"
    by (simp add: hub_defs plain_register_def bonded_account_def
        returning_wallet_hub_def Let_def)
  have l: "lastIP \<lparr>requestsHandled = 1, avgLatencyMs = 900, cacheHits = 1, cacheMisses = 0,
             errors = 1, totalUptime = 62, lastDisconnect = 60000, firstConnect = 0,
             lastIP = Some ''10.0.0.9''\<rparr> = Some ''10.0.0.9''"
    by simp
  have ne: "''10.0.0.9'' \<noteq> []" by simp
  have ch: "''10.0.0.9'' \<noteq> ip (new_node 70000 ''n1'' ''10.0.0.1'')"
    by (simp add: new_node_def)
  show ?thesis
    using ip_change_resets_penalties[OF n a p l ne ch, of "Some bonded_account"]
    by (simp add: hub_defs plain_register_def bonded_account_def
        returning_wallet_hub_def Let_def)
qed

section \<open>Registration of a wallet that is not active on-chain\<close>

text \<open>
  On a connection that is not marked registered (as every connection is until an
  active registration), an authenticated frame for a wallet that is not active
  on-chain gets \<^verbatim>\<open>not_registered\<close> followed by \<^verbatim>\<open>registered\<close>, and the connection enters the
  registry and the wallet index with \<open>isRegistered = False\<close>, outside the routing
  candidates.
\<close>

lemma unbonded_first_registration:
  assumes node: "nodes h i = Some node"
    and unmarked: "\<not> isRegistered node"
    and auth: "register_auth True now msg = Passed w"
    and inactive: "chain = None \<or> (\<exists>acc. chain = Some acc \<and> \<not> isActive acc)"
  shows "\<exists>node' r. nodes (on_register True now i msg chain h) i = Some node'
           \<and> ws_sent node' = ws_sent node @ [not_registered w, registered i False r]
           \<and> \<not> isRegistered node'
           \<and> nodesByWallet (on_register True now i msg chain h) w = Some i
           \<and> i \<in> set (connectedNodes (on_register True now i msg chain h))
           \<and> node' \<notin> set (candidates True t (on_register True now i msg chain h))"
proof -
  have e: "on_register True now i msg chain h
             = admit True now i w (msg_name msg) chain node h"
    using node auth by (simp add: on_register_def)
  show ?thesis
    unfolding e using unmarked inactive
    by (auto simp: admit_def Let_def send_frame_def restore_stats_def apply_onchain_def
        map_set_key_def candidates_def eligible_def split: option.splits)
qed

text \<open>
  \<^bold>\<open>Claim C10.\<close>  The claim: with registration required, an authenticated frame for a
  wallet that is not active on-chain is answered by \<^verbatim>\<open>not_registered\<close> and then
  \<^verbatim>\<open>registered\<close>, and the connection is entered with \<open>isRegistered = False\<close>, so that it is
  excluded from routing.  The code on a socket that registers twice: socket \<open>n1\<close> first
  registers the bonded wallet \<open>W1\<close>, then sends a second frame for wallet \<open>W2\<close>, which is
  not on-chain.  The two frames are sent as claimed, but the branch never clears the
  flag: the connection now belongs to \<open>W2\<close>, is still marked registered, and the router
  selects it.
\<close>

theorem second_register_keeps_registered_flag:
  "(let h = run True
              [Connection 0 ''n1'' ''10.0.0.1'',
               Register 0 ''n1'' (plain_register ''W1'') (Some bonded_account),
               Register 1000 ''n1'' (plain_register ''W2'') None]
              (start_process Map.empty)
    in map_option ws_sent (nodes h ''n1'')
         = Some [registered ''n1'' True None,
                 not_registered ''W2'', registered ''n1'' True None]
       \<and> map_option operator (nodes h ''n1'') = Some ''W2''
       \<and> nodesByWallet h ''W2'' = Some ''n1''
       \<and> connectedNodes h = [''n1'']
       \<and> map_option isRegistered (nodes h ''n1'') = Some True
       \<and> map_option nid (fst (route True 2000 h)) = Some ''n1'')"
  by (simp add: hub_defs plain_register_def bonded_account_def Let_def route_def
      candidates_def eligible_def List.map_filter_simps availableNodes_def healthy_def fastPool_def next_index_def)

section \<open>Monotone request counters\<close>

lemma never_below_refl: "never_below a a"
  by (simp add: never_below_def split: option.splits)

lemma never_below_trans: "never_below a b \<Longrightarrow> never_below b c \<Longrightarrow> never_below a c"
  by (auto simp: never_below_def split: option.splits)

lemma persist_never_below:
  "never_below (map_option requestsHandled (tbl v))
     (map_option requestsHandled (persistWalletStats now w st c tbl v))"
  by (auto simp: persistWalletStats_def never_below_def Let_def split: option.splits)

lemma close_stats_never_below:
  "never_below (map_option requestsHandled (tbl v))
     (map_option requestsHandled (close_stats now node tbl v))"
  by (auto simp: close_stats_def never_below_def Let_def split: option.splits)

lemma takeover_never_below:
  "never_below (live_count h v) (live_count (takeover now i w h) v)"
  by (auto simp: takeover_def live_count_def never_below_refl persist_never_below
      split: option.splits)

lemma takeover_table: "wallet_stats_table (takeover now i w h) = wallet_stats_table h"
  by (simp add: takeover_def split: option.splits)

lemma register_live: "never_below (live_count h v) (live_count (on_register req now i msg chain h) v)"
  using takeover_never_below[of h v]
  by (auto simp: on_register_def admit_def Let_def live_count_def never_below_refl
      split: option.splits auth_result.splits)

lemma register_table: "wallet_stats_table (on_register req now i msg chain h) = wallet_stats_table h"
  by (simp add: on_register_def admit_def Let_def takeover_table
      split: option.splits auth_result.splits)

lemma settled_live: "never_below (live_count h v) (live_count (rpc_settled now i out h) v)"
  by (auto simp: rpc_settled_def Let_def live_count_def never_below_refl persist_never_below
      split: option.splits)

lemma settled_table: "wallet_stats_table (rpc_settled now i out h) = wallet_stats_table h"
  by (simp add: rpc_settled_def Let_def split: option.splits)

lemma close_live: "never_below (live_count h v) (live_count (on_close now i h) v)"
  by (auto simp: on_close_def Let_def live_count_def never_below_refl close_stats_never_below
      split: option.splits)

lemma close_table: "wallet_stats_table (on_close now i h) = wallet_stats_table h"
  by (simp add: on_close_def Let_def split: option.splits)

lemma route_same: "walletStats (snd (route req now h)) = walletStats h"
  "wallet_stats_table (snd (route req now h)) = wallet_stats_table h"
  by (simp_all add: route_def Let_def)

lemma pong_same: "walletStats (on_pong now i h) = walletStats h"
  "wallet_stats_table (on_pong now i h) = wallet_stats_table h"
  by (simp_all add: on_pong_def split: option.splits)

lemma step_live:
  "ev \<noteq> Crash_Restart \<Longrightarrow> never_below (live_count h v) (live_count (step req ev h) v)"
proof (cases ev)
  case (Register now i msg chain)
  then show ?thesis by (simp add: register_live)
next
  case (RpcSettled now i out)
  then show ?thesis by (simp add: settled_live)
next
  case (Close now i)
  then show ?thesis by (simp add: close_live)
next
  case Shutdown_Restart
  then show ?thesis
    by (auto simp: live_count_def start_process_def saveWalletStats_def never_below_def
        split: option.splits)
qed (simp_all add: live_count_def never_below_refl on_connection_def route_same pong_same
       saveWalletStats_def)

lemma step_stored:
  assumes "dominated h"
  shows "never_below (stored_count h v) (stored_count (step req ev h) v)"
proof (cases ev)
  case SaveTimer
  then show ?thesis using assms
    by (auto simp: dominated_def stored_count_def live_count_def saveWalletStats_def
        never_below_def split: option.splits)
next
  case Shutdown_Restart
  then show ?thesis using assms
    by (auto simp: dominated_def stored_count_def live_count_def saveWalletStats_def
        start_process_def never_below_def split: option.splits)
qed (simp_all add: stored_count_def never_below_refl on_connection_def route_same pong_same
       register_table settled_table close_table start_process_def)


lemma step_dominated:
  assumes "dominated h"
  shows "dominated (step req ev h)"
proof (cases "ev = SaveTimer \<or> ev = Shutdown_Restart \<or> ev = Crash_Restart")
  case True
  show ?thesis
    unfolding dominated_def
  proof
    fix w
    have "never_below (stored_count h w) (live_count h w)"
      using assms by (simp add: dominated_def)
    then show "never_below (stored_count (step req ev h) w) (live_count (step req ev h) w)"
      using True
      by (auto simp: stored_count_def live_count_def saveWalletStats_def
          start_process_def never_below_def split: option.splits)
  qed
next
  case False
  then have t: "wallet_stats_table (step req ev h) = wallet_stats_table h"
    by (cases ev) (simp_all add: on_connection_def route_same pong_same
       register_table settled_table close_table)
  show ?thesis
    unfolding dominated_def
  proof
    fix w
    have "never_below (stored_count h w) (live_count h w)"
      using assms by (simp add: dominated_def)
    moreover have "never_below (live_count h w) (live_count (step req ev h) w)"
      using False by (intro step_live) auto
    ultimately show "never_below (stored_count (step req ev h) w) (live_count (step req ev h) w)"
      using never_below_trans by (simp add: stored_count_def t)
  qed
qed

lemma start_dominated: "dominated (start_process tbl)"
  by (auto simp: dominated_def stored_count_def live_count_def start_process_def
      never_below_def split: option.splits)

lemma run_dominated: "dominated h \<Longrightarrow> dominated (run req evs h)"
  unfolding run_def by (induction evs arbitrary: h) (simp_all add: step_dominated)

lemma run_stored:
  "dominated h \<Longrightarrow> never_below (stored_count h v) (stored_count (run req evs h) v)"
  unfolding run_def
proof (induction evs arbitrary: h)
  case Nil
  show ?case by (simp add: never_below_refl)
next
  case (Cons ev evs)
  have "never_below (stored_count h v) (stored_count (step req ev h) v)"
    by (rule step_stored[OF Cons.prems])
  moreover have "never_below (stored_count (step req ev h) v)
                   (stored_count (fold (step req) evs (step req ev h)) v)"
    by (rule Cons.IH[OF step_dominated[OF Cons.prems]])
  ultimately show ?case using never_below_trans by simp
qed

lemma run_live:
  "Crash_Restart \<notin> set evs \<Longrightarrow> never_below (live_count h v) (live_count (run req evs h) v)"
  unfolding run_def
proof (induction evs arbitrary: h)
  case Nil
  show ?case by (simp add: never_below_refl)
next
  case (Cons ev evs)
  have "never_below (live_count h v) (live_count (step req ev h) v)"
    using Cons.prems by (intro step_live) auto
  moreover have "never_below (live_count (step req ev h) v)
                   (live_count (fold (step req) evs (step req ev h)) v)"
    using Cons.prems by (intro Cons.IH) auto
  ultimately show ?case using never_below_trans by simp
qed

lemma run_reloads_stored:
  "never_below (stored_count (run req evs1 (start_process tbl)) w)
               (live_count (run req evs2 (run req evs1 (start_process tbl))) w)"
proof -
  have d1: "dominated (run req evs1 (start_process tbl))"
    by (rule run_dominated[OF start_dominated])
  have d2: "dominated (run req evs2 (run req evs1 (start_process tbl)))"
    by (rule run_dominated[OF d1])
  have "never_below (stored_count (run req evs1 (start_process tbl)) w)
          (stored_count (run req evs2 (run req evs1 (start_process tbl))) w)"
    by (rule run_stored[OF d1])
  moreover have "never_below (stored_count (run req evs2 (run req evs1 (start_process tbl))) w)
          (live_count (run req evs2 (run req evs1 (start_process tbl))) w)"
    using d2 by (simp add: dominated_def)
  ultimately show ?thesis by (rule never_below_trans)
qed

text \<open>
  \<^bold>\<open>Claim C4, as stated, fails.\<close>  The hub writes \<^verbatim>\<open>walletStats\<close> to the durable store
  on a five-minute timer and in the SIGTERM/SIGINT handler only.  Wallet \<open>W\<close> serves
  one request, the timer saves, \<open>W\<close> serves two more requests, and the process is
  restarted without the shutdown save: \<^verbatim>\<open>loadWalletStats()\<close> reloads the table, and
  \<open>requestsHandled\<close> of \<open>W\<close> in \<^verbatim>\<open>walletStats\<close> goes from 3 to 1.
\<close>

theorem crash_restart_lowers_requestsHandled:
  "live_count (run True [Connection 0 ''n1'' ''10.0.0.1'',
                         Register 0 ''n1'' (plain_register ''W'') (Some bonded_account),
                         RpcSettled 1000 ''n1'' (Resolved 900 False),
                         SaveTimer,
                         RpcSettled 2000 ''n1'' (Resolved 1900 True),
                         RpcSettled 3000 ''n1'' (Resolved 2900 True)]
                 (start_process Map.empty)) ''W'' = Some 3
   \<and> live_count (run True [Crash_Restart]
                   (run True [Connection 0 ''n1'' ''10.0.0.1'',
                              Register 0 ''n1'' (plain_register ''W'') (Some bonded_account),
                              RpcSettled 1000 ''n1'' (Resolved 900 False),
                              SaveTimer,
                              RpcSettled 2000 ''n1'' (Resolved 1900 True),
                              RpcSettled 3000 ''n1'' (Resolved 2900 True)]
                      (start_process Map.empty))) ''W'' = Some 1
   \<and> \<not> never_below
         (live_count (run True [Connection 0 ''n1'' ''10.0.0.1'',
                                Register 0 ''n1'' (plain_register ''W'') (Some bonded_account),
                                RpcSettled 1000 ''n1'' (Resolved 900 False),
                                SaveTimer,
                                RpcSettled 2000 ''n1'' (Resolved 1900 True),
                                RpcSettled 3000 ''n1'' (Resolved 2900 True)]
                        (start_process Map.empty)) ''W'')
         (live_count (run True [Crash_Restart]
                        (run True [Connection 0 ''n1'' ''10.0.0.1'',
                                   Register 0 ''n1'' (plain_register ''W'')
                                     (Some bonded_account),
                                   RpcSettled 1000 ''n1'' (Resolved 900 False),
                                   SaveTimer,
                                   RpcSettled 2000 ''n1'' (Resolved 1900 True),
                                   RpcSettled 3000 ''n1'' (Resolved 2900 True)]
                           (start_process Map.empty))) ''W'')"
  by (simp add: live_count_def never_below_def hub_defs plain_register_def
      bonded_account_def Let_def)

text \<open>
  \<^bold>\<open>Claim C4, amended.\<close>  Start a hub process on any durable table and let any events
  happen (\<open>evs1\<close>), then any further events (\<open>evs2\<close>): connections, registrations,
  settled requests with their per-request persistence, disconnects, timer saves,
  restarts with and without the shutdown save.  For every wallet, \<open>requestsHandled\<close> in
  the durable table is afterwards no smaller than before (and still present), and the
  value in the running process's \<^verbatim>\<open>walletStats\<close> is afterwards no smaller than what the
  durable table held before.  The value in \<^verbatim>\<open>walletStats\<close> itself is no smaller than it
  was before if no restart without the shutdown save is among the further events.
  Every merge of a connection's counters into an existing entry, per request and on
  disconnect, stores the maximum of the persisted and the session value.
\<close>

theorem requestsHandled_never_decreases:
  "never_below (stored_count (run req evs1 (start_process tbl)) w)
               (stored_count (run req evs2 (run req evs1 (start_process tbl))) w)
   \<and> never_below (stored_count (run req evs1 (start_process tbl)) w)
                 (live_count (run req evs2 (run req evs1 (start_process tbl))) w)
   \<and> (Crash_Restart \<notin> set evs2 \<longrightarrow>
        never_below (live_count (run req evs1 (start_process tbl)) w)
                    (live_count (run req evs2 (run req evs1 (start_process tbl))) w))
   \<and> (stats_tbl v = Some p \<longrightarrow>
        map_option requestsHandled (persistWalletStats now v st c stats_tbl v)
          = Some (max (requestsHandled p) (requestsHandled st)))
   \<and> (stats_tbl (operator node) = Some p \<longrightarrow>
        map_option requestsHandled (close_stats now node stats_tbl (operator node))
          = Some (max (requestsHandled p) (requestsHandled (stats node))))"
proof (intro conjI)
  show "never_below (stored_count (run req evs1 (start_process tbl)) w)
               (stored_count (run req evs2 (run req evs1 (start_process tbl))) w)"
    by (rule run_stored[OF run_dominated[OF start_dominated]])
  show "never_below (stored_count (run req evs1 (start_process tbl)) w)
                 (live_count (run req evs2 (run req evs1 (start_process tbl))) w)"
    by (rule run_reloads_stored)
  show "Crash_Restart \<notin> set evs2 \<longrightarrow>
        never_below (live_count (run req evs1 (start_process tbl)) w)
                    (live_count (run req evs2 (run req evs1 (start_process tbl))) w)"
    by (simp add: run_live)
  show "stats_tbl v = Some p \<longrightarrow>
        map_option requestsHandled (persistWalletStats now v st c stats_tbl v)
          = Some (max (requestsHandled p) (requestsHandled st))"
    by (simp add: persistWalletStats_def)
  show "stats_tbl (operator node) = Some p \<longrightarrow>
        map_option requestsHandled (close_stats now node stats_tbl (operator node))
          = Some (max (requestsHandled p) (requestsHandled (stats node)))"
    by (simp add: close_stats_def)
qed

text \<open>Wallet \<open>W\<close> serves one request and the timer saves; then \<open>W\<close> serves a second
  request, disconnects, and the hub is shut down and started again: the wallet's count
  goes from 1 to 2 and is 2 in the table and in the new process.\<close>

theorem requestsHandled_never_decreases_witness:
  "Crash_Restart \<notin> set [RpcSettled 2000 ''n1'' (Resolved 1900 True), Close 5000 ''n1'',
                          Shutdown_Restart]
   \<and> live_count (run True [Connection 0 ''n1'' ''10.0.0.1'',
                            Register 0 ''n1'' (plain_register ''W'') (Some bonded_account),
                            RpcSettled 1000 ''n1'' (Resolved 900 False), SaveTimer]
                   (start_process Map.empty)) ''W'' = Some 1
   \<and> live_count (run True [RpcSettled 2000 ''n1'' (Resolved 1900 True), Close 5000 ''n1'',
                            Shutdown_Restart]
                   (run True [Connection 0 ''n1'' ''10.0.0.1'',
                              Register 0 ''n1'' (plain_register ''W'') (Some bonded_account),
                              RpcSettled 1000 ''n1'' (Resolved 900 False), SaveTimer]
                      (start_process Map.empty))) ''W'' = Some 2
   \<and> stored_count (run True [Connection 0 ''n1'' ''10.0.0.1'',
                              Register 0 ''n1'' (plain_register ''W'') (Some bonded_account),
                              RpcSettled 1000 ''n1'' (Resolved 900 False), SaveTimer]
                     (start_process Map.empty)) ''W'' = Some 1
   \<and> stored_count (run True [RpcSettled 2000 ''n1'' (Resolved 1900 True), Close 5000 ''n1'',
                              Shutdown_Restart]
                     (run True [Connection 0 ''n1'' ''10.0.0.1'',
                                Register 0 ''n1'' (plain_register ''W'') (Some bonded_account),
                                RpcSettled 1000 ''n1'' (Resolved 900 False), SaveTimer]
                        (start_process Map.empty))) ''W'' = Some 2
   \<and> [''WA'' \<mapsto> saved_entry] (operator node_A) = Some saved_entry
   \<and> map_option requestsHandled
        (persistWalletStats 0 ''WA'' (stats node_A) 0 [''WA'' \<mapsto> saved_entry] ''WA'')
       = Some 12
   \<and> map_option requestsHandled
        (close_stats 0 node_A [''WA'' \<mapsto> saved_entry] (operator node_A)) = Some 12"
proof -
  have o: "operator node_A = ''WA''" by (simp add: node_A_def)
  have t: "[''WA'' \<mapsto> saved_entry] ''WA'' = Some saved_entry" by simp
  have s: "requestsHandled (stats node_A) = 10" by (simp add: node_A_def)
  have e: "requestsHandled saved_entry = 12" by (simp add: saved_entry_def)
  have n: "Crash_Restart \<notin> set [RpcSettled 2000 ''n1'' (Resolved 1900 True),
                                   Close 5000 ''n1'', Shutdown_Restart]"
    by simp
  show ?thesis
    using o t s e n
      requestsHandled_never_decreases
        [of True
            "[Connection 0 ''n1'' ''10.0.0.1'',
              Register 0 ''n1'' (plain_register ''W'') (Some bonded_account),
              RpcSettled 1000 ''n1'' (Resolved 900 False), SaveTimer]"
            Map.empty "''W''"
            "[RpcSettled 2000 ''n1'' (Resolved 1900 True), Close 5000 ''n1'',
              Shutdown_Restart]"
            "[''WA'' \<mapsto> saved_entry]" "''WA''" saved_entry
            0 "stats node_A" 0 node_A]
    by (simp add: live_count_def stored_count_def hub_defs plain_register_def
        bonded_account_def Let_def)
qed

section \<open>Node agent: cache hits and misses\<close>

lemma update_new_key: "k \<notin> fst ` set c \<Longrightarrow> AList.update k v c = c @ [(k, v)]"
  by (induction c) auto

lemma length_update_cases:
  "length (AList.update k v c) = (if k \<in> fst ` set c then length c else Suc (length c))"
  by (induction c) auto

text \<open>The cache never grows beyond its ceiling, and an entry just stored survives the
  eviction that may follow it.\<close>

lemma evict_bounded:
  "length c \<le> CACHE_MAX_SIZE \<Longrightarrow> length (evict (AList.update k v c)) \<le> CACHE_MAX_SIZE"
  by (auto simp: evict_def length_update_cases CACHE_MAX_SIZE_def)

lemma evict_keeps_stored:
  assumes "length c \<le> CACHE_MAX_SIZE"
  shows "map_of (evict (AList.update k v c)) k = Some v"
proof (cases "k \<in> fst ` set c")
  case True
  then have "length (AList.update k v c) = length c" by (simp add: length_update_cases)
  then have "evict (AList.update k v c) = AList.update k v c"
    using assms by (simp add: evict_def)
  then show ?thesis by (simp add: AList.update_conv')
next
  case False
  have u: "AList.update k v c = c @ [(k, v)]" by (rule update_new_key[OF False])
  have n: "map_of (drop n c) k = None" for n
    using False set_drop_subset[of n c] by (auto simp: map_of_eq_None_iff)
  show ?thesis
  proof (cases "length (c @ [(k, v)]) > CACHE_MAX_SIZE")
    case True
    then have "CACHE_MAX_SIZE div 10 \<le> length c" by (simp add: CACHE_MAX_SIZE_def)
    then have "evict (c @ [(k, v)]) = drop (CACHE_MAX_SIZE div 10) c @ [(k, v)]"
      using True by (simp add: evict_def)
    then show ?thesis unfolding u by (simp add: n map_add_def)
  next
    case False
    then have "evict (c @ [(k, v)]) = c @ [(k, v)]" by (simp add: evict_def)
    then show ?thesis unfolding u using n[of 0] by (simp add: map_add_def)
  qed
qed

text \<open>
  \<^bold>\<open>Claim C7.\<close>  For a method outside the never-cache list: the request is served from
  the cache exactly when the cache holds an entry under the key
  \<^verbatim>\<open>method + ':' + JSON.stringify(params)\<close> whose age \<open>now - ts\<close> is strictly below the
  method's time-to-live (the comparison is the source's \<^verbatim>\<open><\<close>, which is false for a
  time-to-live that is not a number), and \<^verbatim>\<open>fetchRPC\<close> runs exactly when it is not.
  After a miss whose upstream reply was stored at \<open>stored_at\<close> (the cache being within
  its size ceiling), a request with the same method and parameters at a time \<open>later1\<close>
  with \<open>later1 - stored_at < t\<close> returns the stored value without an upstream call and
  leaves the cache as it is, and one at a time \<open>later2\<close> with \<open>later2 - stored_at \<ge> t\<close> is a
  miss that calls upstream.
\<close>

theorem cache_hit_iff_fresh_entry:
  assumes cacheable: "request_method m \<notin> set NO_CACHE_METHODS"
  shows
   "(out_cached (snd (handleRequest now stored_at m ps up c))
       = (\<exists>e. map_of c (request_method m @ '':'' @ ps) = Some e
              \<and> fresh now (entry_ts e) (ttl_of (request_method m))))
    \<and> (out_fetched (snd (handleRequest now stored_at m ps up c))
       = (\<not> out_cached (snd (handleRequest now stored_at m ps up c))))
    \<and> (\<not> out_cached (snd (handleRequest now stored_at m ps (Fetched res) c))
         \<and> body_truthy res \<and> \<not> body_error res \<and> length c \<le> CACHE_MAX_SIZE
         \<and> ttl_of (request_method m) = Millis t
       \<longrightarrow> (later1 - stored_at < t \<longrightarrow>
              handleRequest later1 stored_at2 m ps up2
                  (fst (handleRequest now stored_at m ps (Fetched res) c))
                = (fst (handleRequest now stored_at m ps (Fetched res) c),
                   \<lparr>out_result = Some (body res), out_error = None,
                    out_cached = True, out_fetched = False\<rparr>))
         \<and> (\<not> later2 - stored_at < t \<longrightarrow>
              \<not> out_cached (snd (handleRequest later2 stored_at3 m ps up3
                  (fst (handleRequest now stored_at m ps (Fetched res) c))))
              \<and> out_fetched (snd (handleRequest later2 stored_at3 m ps up3
                  (fst (handleRequest now stored_at m ps (Fetched res) c))))))"
proof (intro conjI)
  show "out_cached (snd (handleRequest now stored_at m ps up c))
       = (\<exists>e. map_of c (request_method m @ '':'' @ ps) = Some e
              \<and> fresh now (entry_ts e) (ttl_of (request_method m)))"
    using cacheable
    by (auto simp: handleRequest_def handleRequest_ttl_def Let_def
        split: option.splits fetch.splits)
  show "out_fetched (snd (handleRequest now stored_at m ps up c))
       = (\<not> out_cached (snd (handleRequest now stored_at m ps up c)))"
    by (auto simp: handleRequest_def handleRequest_ttl_def Let_def
        split: option.splits fetch.splits)
  show "\<not> out_cached (snd (handleRequest now stored_at m ps (Fetched res) c))
         \<and> body_truthy res \<and> \<not> body_error res \<and> length c \<le> CACHE_MAX_SIZE
         \<and> ttl_of (request_method m) = Millis t
       \<longrightarrow> (later1 - stored_at < t \<longrightarrow>
              handleRequest later1 stored_at2 m ps up2
                  (fst (handleRequest now stored_at m ps (Fetched res) c))
                = (fst (handleRequest now stored_at m ps (Fetched res) c),
                   \<lparr>out_result = Some (body res), out_error = None,
                    out_cached = True, out_fetched = False\<rparr>))
         \<and> (\<not> later2 - stored_at < t \<longrightarrow>
              \<not> out_cached (snd (handleRequest later2 stored_at3 m ps up3
                  (fst (handleRequest now stored_at m ps (Fetched res) c))))
              \<and> out_fetched (snd (handleRequest later2 stored_at3 m ps up3
                  (fst (handleRequest now stored_at m ps (Fetched res) c)))))"
  proof (rule impI)
    assume a: "\<not> out_cached (snd (handleRequest now stored_at m ps (Fetched res) c))
         \<and> body_truthy res \<and> \<not> body_error res \<and> length c \<le> CACHE_MAX_SIZE
         \<and> ttl_of (request_method m) = Millis t"
    let ?key = "request_method m @ '':'' @ ps"
    let ?e = "\<lparr>entry_data = body res, entry_ts = stored_at, entry_size = body_size res\<rparr>"
    let ?c1 = "fst (handleRequest now stored_at m ps (Fetched res) c)"
    have c1: "?c1 = evict (AList.update ?key ?e c)"
      using a cacheable
      by (auto simp: handleRequest_def handleRequest_ttl_def Let_def split: option.splits)
    have look: "map_of ?c1 ?key = Some ?e"
      unfolding c1 using a by (intro evict_keeps_stored) simp
    have t: "ttl_of (request_method m) = Millis t" using a by simp
    show "(later1 - stored_at < t \<longrightarrow>
              handleRequest later1 stored_at2 m ps up2 ?c1
                = (?c1, \<lparr>out_result = Some (body res), out_error = None,
                    out_cached = True, out_fetched = False\<rparr>))
         \<and> (\<not> later2 - stored_at < t \<longrightarrow>
              \<not> out_cached (snd (handleRequest later2 stored_at3 m ps up3 ?c1))
              \<and> out_fetched (snd (handleRequest later2 stored_at3 m ps up3 ?c1)))"
      using cacheable look t
      by (auto simp: handleRequest_def handleRequest_ttl_def Let_def fresh_def
          split: fetch.splits)
  qed
qed

text \<open>\<^verbatim>\<open>getBalance\<close> (1500 ms) on an empty cache: the reply is stored at time 40; the same
  request at time 1000 is served from the cache, at time 1540 it is fetched again.\<close>

theorem cache_hit_iff_fresh_entry_witness:
  "request_method (Some ''getBalance'') \<notin> set NO_CACHE_METHODS
   \<and> ttl_of (request_method (Some ''getBalance'')) = Millis 1500
   \<and> handleRequest 0 40 (Some ''getBalance'') ''[1]''
        (Fetched \<lparr>body = ''ok'', body_truthy = True, body_error = False, body_size = 2\<rparr>) []
       = ([(''getBalance:[1]'', \<lparr>entry_data = ''ok'', entry_ts = 40, entry_size = 2\<rparr>)],
          \<lparr>out_result = Some ''ok'', out_error = None, out_cached = False,
           out_fetched = True\<rparr>)
   \<and> handleRequest 1000 1010 (Some ''getBalance'') ''[1]'' (Failed ''Timeout'')
        [(''getBalance:[1]'', \<lparr>entry_data = ''ok'', entry_ts = 40, entry_size = 2\<rparr>)]
       = ([(''getBalance:[1]'', \<lparr>entry_data = ''ok'', entry_ts = 40, entry_size = 2\<rparr>)],
          \<lparr>out_result = Some ''ok'', out_error = None, out_cached = True,
           out_fetched = False\<rparr>)
   \<and> out_fetched (snd (handleRequest 1540 1550 (Some ''getBalance'') ''[1]''
        (Failed ''Timeout'')
        [(''getBalance:[1]'', \<lparr>entry_data = ''ok'', entry_ts = 40, entry_size = 2\<rparr>)]))"
proof -
  have m: "request_method (Some ''getBalance'') \<notin> set NO_CACHE_METHODS"
    by (simp add: request_method_def NO_CACHE_METHODS_def)
  have t: "ttl_of (request_method (Some ''getBalance'')) = Millis 1500"
    by (simp add: request_method_def ttl_of_def CACHE_TTL_def)
  have f: "handleRequest 0 40 (Some ''getBalance'') ''[1]''
        (Fetched \<lparr>body = ''ok'', body_truthy = True, body_error = False, body_size = 2\<rparr>) []
       = ([(''getBalance:[1]'', \<lparr>entry_data = ''ok'', entry_ts = 40, entry_size = 2\<rparr>)],
          \<lparr>out_result = Some ''ok'', out_error = None, out_cached = False,
           out_fetched = True\<rparr>)"
    by (simp add: handleRequest_def handleRequest_ttl_def request_method_def
        NO_CACHE_METHODS_def evict_def CACHE_MAX_SIZE_def Let_def)
  have l: "length ([] :: cache) \<le> CACHE_MAX_SIZE" by simp
  show ?thesis
    using m t f l
      cache_hit_iff_fresh_entry[OF m, of 0 40 "''[1]''"
        "Fetched \<lparr>body = ''ok'', body_truthy = True, body_error = False, body_size = 2\<rparr>"
        "[]" "\<lparr>body = ''ok'', body_truthy = True, body_error = False, body_size = 2\<rparr>"
        1500 1000 1010 "Failed ''Timeout''" 1540 1550 "Failed ''Timeout''"]
    by simp
qed

section \<open>Node agent: the never-cache list\<close>

text \<open>
  \<^bold>\<open>Claim C8.\<close>  A request whose method is in \<^verbatim>\<open>NO_CACHE_METHODS\<close> is never answered from
  the cache and leaves the cache exactly as it was, it always calls upstream, whatever
  the cache holds, whatever the time and whatever the time-to-live; and whenever a
  request changes the cache at all, its method is outside the list and the upstream
  reply was a truthy value without an \<^verbatim>\<open>error\<close> member.
\<close>

theorem deny_list_never_cached:
  "(method \<in> set NO_CACHE_METHODS \<longrightarrow>
      \<not> out_cached (snd (handleRequest_ttl ttl now stored_at method ps up c))
      \<and> out_fetched (snd (handleRequest_ttl ttl now stored_at method ps up c))
      \<and> fst (handleRequest_ttl ttl now stored_at method ps up c) = c)
   \<and> (fst (handleRequest_ttl ttl' now' stored_at' method' ps' up' c') \<noteq> c' \<longrightarrow>
        (\<exists>res. up' = Fetched res \<and> body_truthy res \<and> \<not> body_error res)
        \<and> method' \<notin> set NO_CACHE_METHODS)"
  by (auto simp: handleRequest_ttl_def Let_def split: option.splits fetch.splits if_splits)

text \<open>\<^verbatim>\<open>sendTransaction\<close> is fetched although a fresh entry sits under its key, and
  stores nothing; \<^verbatim>\<open>getSlot\<close> with a successful reply changes the cache.\<close>

theorem deny_list_never_cached_witness:
  "''sendTransaction'' \<in> set NO_CACHE_METHODS
   \<and> handleRequest_ttl (Millis 60000) 100 110 ''sendTransaction'' ''[1]''
        (Fetched \<lparr>body = ''sig'', body_truthy = True, body_error = False, body_size = 3\<rparr>)
        [(''sendTransaction:[1]'', \<lparr>entry_data = ''old'', entry_ts = 90, entry_size = 3\<rparr>)]
       = ([(''sendTransaction:[1]'', \<lparr>entry_data = ''old'', entry_ts = 90, entry_size = 3\<rparr>)],
          \<lparr>out_result = Some ''sig'', out_error = None, out_cached = False,
           out_fetched = True\<rparr>)
   \<and> fst (handleRequest_ttl (Millis 500) 100 110 ''getSlot'' ''[]''
        (Fetched \<lparr>body = ''7'', body_truthy = True, body_error = False, body_size = 1\<rparr>) [])
       \<noteq> []"
proof -
  have d: "''sendTransaction'' \<in> set NO_CACHE_METHODS"
    by (simp add: NO_CACHE_METHODS_def)
  have g: "fst (handleRequest_ttl (Millis 500) 100 110 ''getSlot'' ''[]''
        (Fetched \<lparr>body = ''7'', body_truthy = True, body_error = False, body_size = 1\<rparr>) [])
       \<noteq> []"
    by (simp add: handleRequest_ttl_def NO_CACHE_METHODS_def evict_def CACHE_MAX_SIZE_def
        Let_def)
  show ?thesis
    using d g
      deny_list_never_cached[of "''sendTransaction''" "Millis 60000" 100 110 "''[1]''"
        "Fetched \<lparr>body = ''sig'', body_truthy = True, body_error = False, body_size = 3\<rparr>"
        "[(''sendTransaction:[1]'',
           \<lparr>entry_data = ''old'', entry_ts = 90, entry_size = 3\<rparr>)]"
        "Millis 500" 100 110 "''getSlot''" "''[]''"
        "Fetched \<lparr>body = ''7'', body_truthy = True, body_error = False, body_size = 1\<rparr>"
        "[]"]
    by (simp add: handleRequest_ttl_def NO_CACHE_METHODS_def Let_def)
qed

end
